theory Spec2Isabelle
  imports Main "HOL-Library.Word"
begin

unbundle bit_operations_syntax

section \<open>Levels, facilities and the mask algebra\<close>

text \<open>
  The package declares \<^verbatim>\<open>type Level int\<close> and \<^verbatim>\<open>type Facility int\<close>. Go's \<^verbatim>\<open>int\<close> is
  modelled at its 64-bit width: \<open>+\<close> and \<open>-\<close> wrap, \<^verbatim>\<open><<\<close> is \<open>push_bit\<close> (a shift
  count of 64 or more gives 0, as in Go), \<^verbatim>\<open>>>\<close> on a signed value is
  \<open>signed_drop_bit\<close>, and the conversion \<^verbatim>\<open>uint(pri)\<close> reads the same 64 bits as an
  unsigned number (\<open>unat\<close>). The constants and the mask functions are the same in both
  source files.
\<close>

type_synonym go_int = "64 word"
type_synonym Level = "64 word"
type_synonym Facility = "64 word"

definition LOG_EMERG :: Level where "LOG_EMERG = 0"
definition LOG_ALERT :: Level where "LOG_ALERT = 1"
definition LOG_CRIT :: Level where "LOG_CRIT = 2"
definition LOG_ERR :: Level where "LOG_ERR = 3"
definition LOG_WARNING :: Level where "LOG_WARNING = 4"
definition LOG_NOTICE :: Level where "LOG_NOTICE = 5"
definition LOG_INFO :: Level where "LOG_INFO = 6"
definition LOG_DEBUG :: Level where "LOG_DEBUG = 7"

definition LOG_PRIMASK :: go_int where "LOG_PRIMASK = 0x07"
definition INTERNAL_NOPRI :: Level where "INTERNAL_NOPRI = 0x10"

definition LOG_NFACILITIES :: go_int where "LOG_NFACILITIES = 24"
definition LOG_FACMASK :: go_int where "LOG_FACMASK = 0x03f8"
definition INTERNAL_MARK :: Facility where
  "INTERNAL_MARK = (push_bit 3 LOG_NFACILITIES) OR 0"

definition LOG_KERN :: Facility where "LOG_KERN = push_bit 3 0"
definition LOG_USER :: Facility where "LOG_USER = push_bit 3 1"
definition LOG_MAIL :: Facility where "LOG_MAIL = push_bit 3 2"
definition LOG_DAEMON :: Facility where "LOG_DAEMON = push_bit 3 3"
definition LOG_AUTH :: Facility where "LOG_AUTH = push_bit 3 4"
definition LOG_SYSLOG :: Facility where "LOG_SYSLOG = push_bit 3 5"
definition LOG_LPR :: Facility where "LOG_LPR = push_bit 3 6"
definition LOG_NEWS :: Facility where "LOG_NEWS = push_bit 3 7"
definition LOG_UUCP :: Facility where "LOG_UUCP = push_bit 3 8"
definition LOG_CRON :: Facility where "LOG_CRON = push_bit 3 9"
definition LOG_AUTHPRIV :: Facility where "LOG_AUTHPRIV = push_bit 3 10"
definition LOG_FTP :: Facility where "LOG_FTP = push_bit 3 11"
definition LOG_LOCAL0 :: Facility where "LOG_LOCAL0 = push_bit 3 16"
definition LOG_LOCAL1 :: Facility where "LOG_LOCAL1 = push_bit 3 17"
definition LOG_LOCAL2 :: Facility where "LOG_LOCAL2 = push_bit 3 18"
definition LOG_LOCAL3 :: Facility where "LOG_LOCAL3 = push_bit 3 19"
definition LOG_LOCAL4 :: Facility where "LOG_LOCAL4 = push_bit 3 20"
definition LOG_LOCAL5 :: Facility where "LOG_LOCAL5 = push_bit 3 21"
definition LOG_LOCAL6 :: Facility where "LOG_LOCAL6 = push_bit 3 22"
definition LOG_LOCAL7 :: Facility where "LOG_LOCAL7 = push_bit 3 23"

lemmas level_defs =
  LOG_EMERG_def LOG_ALERT_def LOG_CRIT_def LOG_ERR_def
  LOG_WARNING_def LOG_NOTICE_def LOG_INFO_def LOG_DEBUG_def INTERNAL_NOPRI_def

lemmas facility_defs =
  LOG_KERN_def LOG_USER_def LOG_MAIL_def LOG_DAEMON_def LOG_AUTH_def LOG_SYSLOG_def
  LOG_LPR_def LOG_NEWS_def LOG_UUCP_def LOG_CRON_def LOG_AUTHPRIV_def LOG_FTP_def
  LOG_LOCAL0_def LOG_LOCAL1_def LOG_LOCAL2_def LOG_LOCAL3_def LOG_LOCAL4_def
  LOG_LOCAL5_def LOG_LOCAL6_def LOG_LOCAL7_def INTERNAL_MARK_def LOG_NFACILITIES_def

definition LOG_PRI :: "go_int \<Rightarrow> Level" where
  "LOG_PRI p = p AND LOG_PRIMASK"

definition LOG_MAKEPRI :: "Facility \<Rightarrow> Level \<Rightarrow> go_int" where
  "LOG_MAKEPRI fac pri = (push_bit 3 fac) OR pri"

text \<open>
  The two name tables are Go map literals. They are kept as the lists of their entries,
  in the order of the source text; a lookup is \<open>map_of\<close>.
\<close>

definition Levels :: "(Level \<times> string) list" where
  "Levels =
    [(LOG_ALERT, ''alert''), (LOG_CRIT, ''crit''), (LOG_DEBUG, ''debug''),
     (LOG_EMERG, ''emerg''), (LOG_ERR, ''err''), (LOG_INFO, ''info''),
     (INTERNAL_NOPRI, ''none''), (LOG_NOTICE, ''notice''), (LOG_WARNING, ''warning'')]"

definition Facilities :: "(Facility \<times> string) list" where
  "Facilities =
    [(LOG_AUTH, ''auth''), (LOG_AUTHPRIV, ''authpriv''), (LOG_CRON, ''cron''),
     (LOG_DAEMON, ''daemon''), (LOG_FTP, ''ftp''), (LOG_KERN, ''kern''),
     (LOG_LPR, ''lpr''), (LOG_MAIL, ''mail''), (INTERNAL_MARK, ''mark''),
     (LOG_NEWS, ''news''), (LOG_SYSLOG, ''syslog''), (LOG_USER, ''user''),
     (LOG_UUCP, ''uucp''), (LOG_LOCAL0, ''local0''), (LOG_LOCAL1, ''local1''),
     (LOG_LOCAL2, ''local2''), (LOG_LOCAL3, ''local3''), (LOG_LOCAL4, ''local4''),
     (LOG_LOCAL5, ''local5''), (LOG_LOCAL6, ''local6''), (LOG_LOCAL7, ''local7'')]"

text \<open>\<^verbatim>\<open>Levels[prio]\<close>: a key that is not in a Go map reads as the empty string.\<close>

definition Levels_at :: "Level \<Rightarrow> string" where
  "Levels_at prio = (case map_of Levels prio of Some name \<Rightarrow> name | None \<Rightarrow> [])"

definition LOG_FAC :: "go_int \<Rightarrow> Facility" where
  "LOG_FAC p = signed_drop_bit 3 (p AND LOG_FACMASK)"

definition LOG_MASK :: "Level \<Rightarrow> go_int" where
  "LOG_MASK pri = push_bit (unat pri) 1"

definition LOG_UPTO :: "Level \<Rightarrow> go_int" where
  "LOG_UPTO pri = push_bit (unat (pri + 1)) 1 - 1"

section \<open>The sink and the formatter\<close>

text \<open>
  The loggers write through Go's \<^verbatim>\<open>log.Logger\<close>, which owns a destination
  (\<^verbatim>\<open>io.Writer\<close>), a prefix and the header flags. A writer is named by a number,
  and the store \<open>sinks\<close> holds, for every writer, the lines that were handed to it, oldest
  first: two loggers built on one writer share its entry. \<^verbatim>\<open>Output(calldepth, s)\<close>
  hands the text \<open>s\<close> to the logger's writer; the header that the sink puts before
  \<open>s\<close> (prefix, time, caller found through \<open>calldepth\<close>) and the final newline are
  the sink's own business and are not part of the line recorded here.
\<close>

type_synonym Writer = nat
type_synonym sinks = "Writer \<Rightarrow> string list"

record log_Logger =
  out :: Writer
  prefix :: string
  flag :: go_int

definition log_New :: "Writer \<Rightarrow> string \<Rightarrow> go_int \<Rightarrow> log_Logger" where
  "log_New w p f = \<lparr>out = w, prefix = p, flag = f\<rparr>"

definition log_Output :: "log_Logger \<Rightarrow> nat \<Rightarrow> string \<Rightarrow> sinks \<Rightarrow> sinks" where
  "log_Output lg calldepth s W = W(out lg := W (out lg) @ [s])"

definition os_Stderr :: Writer where "os_Stderr = 2"
definition log_LstdFlags :: go_int where "log_LstdFlags = 3"

text \<open>
  A call that does not return: \<^verbatim>\<open>panic(s)\<close> unwinds with the payload \<open>s\<close>,
  \<^verbatim>\<open>os.Exit(code)\<close> ends the process.
\<close>

datatype abort = PanicWith string | ExitWith go_int

text \<open>
  The variadic arguments \<^verbatim>\<open>v ...interface{}\<close> are a list of values; a value is a
  Go string or anything else. \<^verbatim>\<open>fmt.Sprintf\<close> belongs to the standard library: every
  function that formats takes it as its first argument \<open>sp\<close>.
\<close>

datatype 'a iface = GoString string | GoValue 'a

type_synonym 'a Sprintf = "string \<Rightarrow> 'a iface list \<Rightarrow> string"

text \<open>
  The two facts about \<^verbatim>\<open>fmt.Sprintf\<close> that the shape of a line rests on: text before
  the first \<^verbatim>\<open>%\<close> is copied as it is and the rest is formatted as if it stood alone,
  and the template \<^verbatim>\<open>[%s] %s\<close> with two strings puts the first between the
  brackets and the second after the blank.
\<close>

definition copies_literal_text :: "'a Sprintf \<Rightarrow> bool" where
  "copies_literal_text sp \<longleftrightarrow>
     (\<forall>p f v. CHR ''%'' \<notin> set p \<longrightarrow> sp (p @ f) v = p @ sp f v)"

definition fills_tag_template :: "'a Sprintf \<Rightarrow> bool" where
  "fills_tag_template sp \<longleftrightarrow>
     (\<forall>a b. sp ''[%s] %s'' [GoString a, GoString b] = ''['' @ a @ ''] '' @ b)"

text \<open>
  A small formatter that has both properties, used to run the model on concrete input:
  \<^verbatim>\<open>%%\<close> is a percent sign, any other verb prints the next argument (a string as it
  is, another value through its text), and a verb without an argument prints nothing.
\<close>

fun text_of :: "string iface \<Rightarrow> string" where
  "text_of (GoString s) = s"
| "text_of (GoValue s) = s"

fun plain_Sprintf :: "string Sprintf" where
  "plain_Sprintf [] v = []"
| "plain_Sprintf [c] v = [c]"
| "plain_Sprintf (c # d # cs) v =
     (if c = CHR ''%'' then
        (if d = CHR ''%'' then CHR ''%'' # plain_Sprintf cs v
         else case v of
                [] \<Rightarrow> plain_Sprintf cs []
              | a # as \<Rightarrow> text_of a @ plain_Sprintf cs as)
      else c # plain_Sprintf (d # cs) v)"

text \<open>The standard library's \<^verbatim>\<open>log.Logger\<close> methods that src/logger.go calls.\<close>

definition log_Printf ::
  "'a Sprintf \<Rightarrow> log_Logger \<Rightarrow> string \<Rightarrow> 'a iface list \<Rightarrow> sinks \<Rightarrow> sinks" where
  "log_Printf sp lg format v W = log_Output lg 2 (sp format v) W"

definition log_Panicf ::
  "'a Sprintf \<Rightarrow> log_Logger \<Rightarrow> string \<Rightarrow> 'a iface list \<Rightarrow> sinks \<Rightarrow> abort \<times> sinks" where
  "log_Panicf sp lg format v W =
     (let s = sp format v;
          W1 = log_Output lg 2 s W
      in (PanicWith s, W1))"

definition log_Fatalf ::
  "'a Sprintf \<Rightarrow> log_Logger \<Rightarrow> string \<Rightarrow> 'a iface list \<Rightarrow> sinks \<Rightarrow> abort \<times> sinks" where
  "log_Fatalf sp lg format v W =
     (let W1 = log_Output lg 2 (sp format v) W
      in (ExitWith 1, W1))"

section \<open>The Logger instance\<close>

record Logger =
  logger :: log_Logger
  upto :: go_int

definition NewLogger :: "Writer \<Rightarrow> string \<Rightarrow> go_int \<Rightarrow> Level \<Rightarrow> Logger" where
  "NewLogger w p f priority = \<lparr>logger = log_New w p f, upto = LOG_UPTO priority\<rparr>"

definition Logger_Flags :: "Logger \<Rightarrow> go_int" where
  "Logger_Flags l = flag (logger l)"

definition Logger_Prefix :: "Logger \<Rightarrow> string" where
  "Logger_Prefix l = prefix (logger l)"

text \<open>
  \<^verbatim>\<open>Priority()\<close>: \<^verbatim>\<open>int32(...)\<close> keeps the low 32 bits, \<^verbatim>\<open>b >> k\<close> on the
  \<^verbatim>\<open>int32\<close> is an arithmetic shift, and \<^verbatim>\<open>Level(b)\<close> extends the sign.
\<close>

definition Logger_Priority :: "Logger \<Rightarrow> Level" where
  "Logger_Priority l =
     (let b0 = (ucast (NOT (upto l) AND (upto l + 1)) :: 32 word);
          b1 = b0 - 1;
          b2 = (b1 AND 0x55555555) + ((signed_drop_bit 1 b1) AND 0x55555555);
          b3 = (b2 AND 0x33333333) + ((signed_drop_bit 2 b2) AND 0x33333333);
          b4 = (b3 AND 0x0f0f0f0f) + ((signed_drop_bit 4 b3) AND 0x0f0f0f0f);
          b5 = (b4 AND 0x00ff00ff) + ((signed_drop_bit 8 b4) AND 0x00ff00ff);
          b6 = (b5 AND 0x0000ffff) + ((signed_drop_bit 16 b5) AND 0x0000ffff)
      in scast b6)"

definition Logger_SetFlags :: "Logger \<Rightarrow> go_int \<Rightarrow> Logger" where
  "Logger_SetFlags l f = l\<lparr>logger := (logger l)\<lparr>flag := f\<rparr>\<rparr>"

definition Logger_SetPrefix :: "Logger \<Rightarrow> string \<Rightarrow> Logger" where
  "Logger_SetPrefix l p = l\<lparr>logger := (logger l)\<lparr>prefix := p\<rparr>\<rparr>"

definition Logger_SetPriority :: "Logger \<Rightarrow> Level \<Rightarrow> Logger" where
  "Logger_SetPriority l priority = l\<lparr>upto := LOG_UPTO priority\<rparr>"

definition Logger_Panic ::
  "'a Sprintf \<Rightarrow> Logger \<Rightarrow> string \<Rightarrow> 'a iface list \<Rightarrow> sinks \<Rightarrow> abort \<times> sinks" where
  "Logger_Panic sp l format v W =
     (let s = sp (''[panic] '' @ format) v;
          W1 = log_Output (logger l) 3 s W
      in (PanicWith s, W1))"

definition Logger_Fatal ::
  "'a Sprintf \<Rightarrow> Logger \<Rightarrow> string \<Rightarrow> 'a iface list \<Rightarrow> sinks \<Rightarrow> abort \<times> sinks" where
  "Logger_Fatal sp l format v W =
     (let W1 = log_Output (logger l) 3 (sp (''[fatal] '' @ format) v) W
      in (ExitWith 1, W1))"

definition Logger_printf ::
  "'a Sprintf \<Rightarrow> Logger \<Rightarrow> string \<Rightarrow> Level \<Rightarrow> 'a iface list \<Rightarrow> sinks \<Rightarrow> sinks" where
  "Logger_printf sp l format prio v W =
     log_Output (logger l) 3
       (sp (sp ''[%s] %s'' [GoString (Levels_at prio), GoString format]) v) W"

type_synonym 'a emitter = "'a Sprintf \<Rightarrow> Logger \<Rightarrow> string \<Rightarrow> 'a iface list \<Rightarrow> sinks \<Rightarrow> sinks"

definition Logger_Emerg :: "'a emitter" where
  "Logger_Emerg sp l format v W =
     (if upto l AND LOG_MASK LOG_EMERG \<noteq> 0 then Logger_printf sp l format LOG_EMERG v W else W)"

definition Logger_Alert :: "'a emitter" where
  "Logger_Alert sp l format v W =
     (if upto l AND LOG_MASK LOG_ALERT \<noteq> 0 then Logger_printf sp l format LOG_ALERT v W else W)"

definition Logger_Crit :: "'a emitter" where
  "Logger_Crit sp l format v W =
     (if upto l AND LOG_MASK LOG_CRIT \<noteq> 0 then Logger_printf sp l format LOG_CRIT v W else W)"

definition Logger_Error :: "'a emitter" where
  "Logger_Error sp l format v W =
     (if upto l AND LOG_MASK LOG_ERR \<noteq> 0 then Logger_printf sp l format LOG_ERR v W else W)"

definition Logger_Warning :: "'a emitter" where
  "Logger_Warning sp l format v W =
     (if upto l AND LOG_MASK LOG_WARNING \<noteq> 0 then Logger_printf sp l format LOG_WARNING v W
      else W)"

definition Logger_Notice :: "'a emitter" where
  "Logger_Notice sp l format v W =
     (if upto l AND LOG_MASK LOG_NOTICE \<noteq> 0 then Logger_printf sp l format LOG_NOTICE v W
      else W)"

definition Logger_Info :: "'a emitter" where
  "Logger_Info sp l format v W =
     (if upto l AND LOG_MASK LOG_INFO \<noteq> 0 then Logger_printf sp l format LOG_INFO v W else W)"

definition Logger_Debug :: "'a emitter" where
  "Logger_Debug sp l format v W =
     (if upto l AND LOG_MASK LOG_DEBUG \<noteq> 0 then Logger_printf sp l format LOG_DEBUG v W else W)"

text \<open>The eight severity methods in the order of their levels: entry \<open>S\<close> is the method
  of severity \<open>S\<close>.\<close>

definition Logger_emit :: "'a emitter list" where
  "Logger_emit =
     [Logger_Emerg, Logger_Alert, Logger_Crit, Logger_Error,
      Logger_Warning, Logger_Notice, Logger_Info, Logger_Debug]"

subsection \<open>The instance of src/logger.go\<close>

text \<open>
  src/logger.go has the same \<^verbatim>\<open>Logger\<close> and \<^verbatim>\<open>NewLogger\<close>; its setter is
  \<^verbatim>\<open>SetLevel\<close>, and its methods go through \<^verbatim>\<open>Printf\<close>, \<^verbatim>\<open>Panicf\<close> and
  \<^verbatim>\<open>Fatalf\<close> of \<^verbatim>\<open>log.Logger\<close>. Their names carry the suffix \<open>_v0\<close> here.
\<close>

definition Logger_SetLevel :: "Logger \<Rightarrow> Level \<Rightarrow> Logger" where
  "Logger_SetLevel l priority = l\<lparr>upto := LOG_UPTO priority\<rparr>"

definition Logger_Panic_v0 ::
  "'a Sprintf \<Rightarrow> Logger \<Rightarrow> string \<Rightarrow> 'a iface list \<Rightarrow> sinks \<Rightarrow> abort \<times> sinks" where
  "Logger_Panic_v0 sp l format v W =
     log_Panicf sp (logger l) (sp ''[panic] %s'' [GoString format]) v W"

definition Logger_Fatal_v0 ::
  "'a Sprintf \<Rightarrow> Logger \<Rightarrow> string \<Rightarrow> 'a iface list \<Rightarrow> sinks \<Rightarrow> abort \<times> sinks" where
  "Logger_Fatal_v0 sp l format v W =
     log_Fatalf sp (logger l) (sp ''[fatal] %s'' [GoString format]) v W"

definition Logger_printf_v0 ::
  "'a Sprintf \<Rightarrow> Logger \<Rightarrow> string \<Rightarrow> Level \<Rightarrow> 'a iface list \<Rightarrow> sinks \<Rightarrow> sinks" where
  "Logger_printf_v0 sp l format prio v W =
     log_Printf sp (logger l) (sp ''[%s] %s'' [GoString (Levels_at prio), GoString format]) v W"

definition Logger_Emerg_v0 :: "'a emitter" where
  "Logger_Emerg_v0 sp l format v W =
     (if upto l AND LOG_MASK LOG_EMERG \<noteq> 0 then Logger_printf_v0 sp l format LOG_EMERG v W
      else W)"

definition Logger_Alert_v0 :: "'a emitter" where
  "Logger_Alert_v0 sp l format v W =
     (if upto l AND LOG_MASK LOG_ALERT \<noteq> 0 then Logger_printf_v0 sp l format LOG_ALERT v W
      else W)"

definition Logger_Crit_v0 :: "'a emitter" where
  "Logger_Crit_v0 sp l format v W =
     (if upto l AND LOG_MASK LOG_CRIT \<noteq> 0 then Logger_printf_v0 sp l format LOG_CRIT v W
      else W)"

definition Logger_Error_v0 :: "'a emitter" where
  "Logger_Error_v0 sp l format v W =
     (if upto l AND LOG_MASK LOG_ERR \<noteq> 0 then Logger_printf_v0 sp l format LOG_ERR v W
      else W)"

definition Logger_Warning_v0 :: "'a emitter" where
  "Logger_Warning_v0 sp l format v W =
     (if upto l AND LOG_MASK LOG_WARNING \<noteq> 0
      then Logger_printf_v0 sp l format LOG_WARNING v W else W)"

definition Logger_Notice_v0 :: "'a emitter" where
  "Logger_Notice_v0 sp l format v W =
     (if upto l AND LOG_MASK LOG_NOTICE \<noteq> 0
      then Logger_printf_v0 sp l format LOG_NOTICE v W else W)"

definition Logger_Info_v0 :: "'a emitter" where
  "Logger_Info_v0 sp l format v W =
     (if upto l AND LOG_MASK LOG_INFO \<noteq> 0 then Logger_printf_v0 sp l format LOG_INFO v W
      else W)"

definition Logger_Debug_v0 :: "'a emitter" where
  "Logger_Debug_v0 sp l format v W =
     (if upto l AND LOG_MASK LOG_DEBUG \<noteq> 0 then Logger_printf_v0 sp l format LOG_DEBUG v W
      else W)"

definition Logger_emit_v0 :: "'a emitter list" where
  "Logger_emit_v0 =
     [Logger_Emerg_v0, Logger_Alert_v0, Logger_Crit_v0, Logger_Error_v0,
      Logger_Warning_v0, Logger_Notice_v0, Logger_Info_v0, Logger_Debug_v0]"

section \<open>The package-wide logger\<close>

text \<open>
  The package keeps one \<^verbatim>\<open>Logger\<close> in the variable \<^verbatim>\<open>std\<close>. Every package-level
  function reads or replaces it, so it takes the current value of \<^verbatim>\<open>std\<close> as the
  argument \<open>std\<close>, and a function that assigns to the variable returns its new value.
  Go initialises the variable before it runs \<^verbatim>\<open>init\<close>.
\<close>

definition std_initial :: Logger where
  "std_initial = NewLogger os_Stderr [] log_LstdFlags LOG_ERR"

definition Flags :: "Logger \<Rightarrow> go_int" where
  "Flags std = Logger_Flags std"

definition Prefix :: "Logger \<Rightarrow> string" where
  "Prefix std = Logger_Prefix std"

definition Priority :: "Logger \<Rightarrow> Level" where
  "Priority std = Logger_Priority std"

definition SetOutput :: "Logger \<Rightarrow> Writer \<Rightarrow> Logger" where
  "SetOutput std w = NewLogger w (Prefix std) (Flags std) (Priority std)"

definition SetFlags :: "Logger \<Rightarrow> go_int \<Rightarrow> Logger" where
  "SetFlags std f = Logger_SetFlags std f"

definition SetPrefix :: "Logger \<Rightarrow> string \<Rightarrow> Logger" where
  "SetPrefix std p = Logger_SetPrefix std p"

definition SetPriority :: "Logger \<Rightarrow> Level \<Rightarrow> Logger" where
  "SetPriority std priority = Logger_SetPriority std priority"

text \<open>
  \<^verbatim>\<open>init\<close> reads the environment (\<^verbatim>\<open>os.Getenv\<close> gives the empty string for a
  variable that is not set) and walks the \<^verbatim>\<open>Levels\<close> map. Go visits the entries of a
  map in an order of its own choosing, each once: the order is the argument \<open>order\<close>.
  \<^verbatim>\<open>strings.ToLower\<close> is the standard library's and is the argument \<open>ToLower\<close>.
\<close>

definition os_Getenv :: "(string \<rightharpoonup> string) \<Rightarrow> string \<Rightarrow> string" where
  "os_Getenv env key = (case env key of Some val \<Rightarrow> val | None \<Rightarrow> [])"

fun init_range :: "(string \<Rightarrow> string) \<Rightarrow> string \<Rightarrow> (Level \<times> string) list \<Rightarrow> Logger \<Rightarrow> Logger" where
  "init_range ToLower s [] std = std"
| "init_range ToLower s ((k, v) # rest) std =
     (if ToLower s = v then SetPriority std k else init_range ToLower s rest std)"

definition init ::
  "(string \<Rightarrow> string) \<Rightarrow> (string \<rightharpoonup> string) \<Rightarrow> (Level \<times> string) list \<Rightarrow> Logger \<Rightarrow> Logger" where
  "init ToLower env order std =
     (let s = os_Getenv env ''GOLOGLEVEL'' in init_range ToLower s order std)"

definition Panic ::
  "'a Sprintf \<Rightarrow> Logger \<Rightarrow> string \<Rightarrow> 'a iface list \<Rightarrow> sinks \<Rightarrow> abort \<times> sinks" where
  "Panic sp std format v W =
     (let s = sp (''[panic] '' @ format) v;
          W1 = log_Output (logger std) 3 s W
      in (PanicWith s, W1))"

definition Fatal ::
  "'a Sprintf \<Rightarrow> Logger \<Rightarrow> string \<Rightarrow> 'a iface list \<Rightarrow> sinks \<Rightarrow> abort \<times> sinks" where
  "Fatal sp std format v W =
     (let W1 = log_Output (logger std) 3 (sp (''[fatal] '' @ format) v) W
      in (ExitWith 1, W1))"

definition Emerg :: "'a emitter" where
  "Emerg sp std format v W =
     (if upto std AND LOG_MASK LOG_EMERG \<noteq> 0 then Logger_printf sp std format LOG_EMERG v W
      else W)"

definition Alert :: "'a emitter" where
  "Alert sp std format v W =
     (if upto std AND LOG_MASK LOG_ALERT \<noteq> 0 then Logger_printf sp std format LOG_ALERT v W
      else W)"

definition Crit :: "'a emitter" where
  "Crit sp std format v W =
     (if upto std AND LOG_MASK LOG_CRIT \<noteq> 0 then Logger_printf sp std format LOG_CRIT v W
      else W)"

definition Error :: "'a emitter" where
  "Error sp std format v W =
     (if upto std AND LOG_MASK LOG_ERR \<noteq> 0 then Logger_printf sp std format LOG_ERR v W
      else W)"

definition Warning :: "'a emitter" where
  "Warning sp std format v W =
     (if upto std AND LOG_MASK LOG_WARNING \<noteq> 0
      then Logger_printf sp std format LOG_WARNING v W else W)"

definition Notice :: "'a emitter" where
  "Notice sp std format v W =
     (if upto std AND LOG_MASK LOG_NOTICE \<noteq> 0
      then Logger_printf sp std format LOG_NOTICE v W else W)"

definition Info :: "'a emitter" where
  "Info sp std format v W =
     (if upto std AND LOG_MASK LOG_INFO \<noteq> 0 then Logger_printf sp std format LOG_INFO v W
      else W)"

definition Debug :: "'a emitter" where
  "Debug sp std format v W =
     (if upto std AND LOG_MASK LOG_DEBUG \<noteq> 0 then Logger_printf sp std format LOG_DEBUG v W
      else W)"

definition emit :: "'a emitter list" where
  "emit = [Emerg, Alert, Crit, Error, Warning, Notice, Info, Debug]"

text \<open>The logger states that a program can reach: a logger is built by
  \<^verbatim>\<open>NewLogger\<close> and changed by its setters; \<^verbatim>\<open>SetOutput\<close> and \<^verbatim>\<open>init\<close> do the
  same to the package's logger.\<close>

inductive reachable :: "Logger \<Rightarrow> bool" where
  reach_New: "reachable (NewLogger w p f priority)"
| reach_SetPriority: "reachable l \<Longrightarrow> reachable (Logger_SetPriority l priority)"
| reach_SetLevel: "reachable l \<Longrightarrow> reachable (Logger_SetLevel l priority)"
| reach_SetFlags: "reachable l \<Longrightarrow> reachable (Logger_SetFlags l f)"
| reach_SetPrefix: "reachable l \<Longrightarrow> reachable (Logger_SetPrefix l p)"
| reach_SetOutput: "reachable l \<Longrightarrow> reachable (SetOutput l w)"
| reach_init: "reachable l \<Longrightarrow> reachable (init ToLower env order l)"

text \<open>
  The startup resolution as the specification words it: the level whose canonical name
  in the \<^verbatim>\<open>Levels\<close> table is the given (lower-cased) value, and the error level when
  no name of the table is that value. \<^verbatim>\<open>init\<close> above is compared with it.
\<close>

definition startup_level :: "string \<Rightarrow> Level" where
  "startup_level name =
     (case map_of (map (\<lambda>(k, v). (v, k)) Levels) name of Some k \<Rightarrow> k | None \<Rightarrow> LOG_ERR)"

text \<open>Lower-casing of the ASCII letters, to run \<^verbatim>\<open>init\<close> on concrete input.\<close>

definition ascii_ToLower :: "string \<Rightarrow> string" where
  "ascii_ToLower s =
     map (\<lambda>c. case map_of (zip ''ABCDEFGHIJKLMNOPQRSTUVWXYZ'' ''abcdefghijklmnopqrstuvwxyz'') c of
                 Some d \<Rightarrow> d | None \<Rightarrow> c) s"

text \<open>The eight severities, \<open>0\<close> to \<open>7\<close>, in the order of their values. On these
  values the signed and the unsigned reading of a \<^verbatim>\<open>Level\<close> agree, so \<open>unat L\<close> is
  the level as a number and \<open>\<le>\<close> on words is the order of the levels.\<close>

definition severities :: "Level list" where
  "severities =
     [LOG_EMERG, LOG_ALERT, LOG_CRIT, LOG_ERR, LOG_WARNING, LOG_NOTICE, LOG_INFO, LOG_DEBUG]"

section \<open>Properties of the mask algebra\<close>

lemma LOG_MASK_bit: "bit (LOG_MASK pri) n \<longleftrightarrow> n = unat pri \<and> n < 64"
  by (auto simp: LOG_MASK_def bit_exp_iff push_bit_eq_mult dest: bit_imp_le_length)

lemma LOG_UPTO_eq_mask:
  assumes "unat pri < 63"
  shows "LOG_UPTO pri = mask (Suc (unat pri))"
proof -
  have "unat (pri + 1) = Suc (unat pri)"
    using assms by (simp add: unat_word_ariths)
  then show ?thesis
    by (simp add: LOG_UPTO_def mask_eq_exp_minus_1 push_bit_eq_mult)
qed

lemma LOG_UPTO_bit:
  assumes "unat pri < 63"
  shows "bit (LOG_UPTO pri) n \<longleftrightarrow> n \<le> unat pri"
  using assms by (auto simp: LOG_UPTO_eq_mask bit_mask_iff less_Suc_eq_le)

lemma severities_cases:
  assumes "L \<in> set severities"
  obtains "L = 0" | "L = 1" | "L = 2" | "L = 3" | "L = 4" | "L = 5" | "L = 6" | "L = 7"
  using assms by (auto simp: severities_def level_defs)

lemma severities_unat: "L \<in> set severities \<Longrightarrow> unat L \<le> 7"
  by (erule severities_cases) simp_all

lemma severities_sint: "L \<in> set severities \<Longrightarrow> sint L = int (unat L)"
  by (erule severities_cases) simp_all


lemma LOG_MASK_eq_exp: "LOG_MASK S = 2 ^ unat S"
  by (simp add: LOG_MASK_def push_bit_eq_mult)

lemma guard_iff:
  assumes "unat L < 63"
  shows "LOG_UPTO L AND LOG_MASK S \<noteq> 0 \<longleftrightarrow> unat S \<le> unat L"
  using assms by (simp add: LOG_MASK_eq_exp and_exp_eq_0_iff_not_bit LOG_UPTO_bit)

lemma uint_LOG_UPTO:
  assumes "unat pri < 63"
  shows "uint (LOG_UPTO pri) = 2 ^ Suc (unat pri) - 1"
proof -
  have "min 64 (Suc (unat pri)) = Suc (unat pri)"
    using assms by simp
  then have "uint (mask (Suc (unat pri)) :: go_int) = mask (Suc (unat pri))"
    by (simp add: uint_mask_eq)
  then show ?thesis
    by (simp add: LOG_UPTO_eq_mask [OF assms] mask_eq_exp_minus_1)
qed

text \<open>
  Claim C3. For every level \<open>L\<close> in 0..7, \<^verbatim>\<open>LOG_UPTO(L)\<close> has the bits 0 to \<open>L\<close> set
  and no other bit, that is, it is the number \<open>2 ^ (L + 1) - 1\<close>; \<^verbatim>\<open>LOG_UPTO(7)\<close> is
  \<^verbatim>\<open>0xFF\<close>; and \<^verbatim>\<open>LOG_MASK(L)\<close> has exactly one bit set, at position \<open>L\<close>.
\<close>

theorem mask_values:
  assumes "L \<in> set severities"
  shows "(\<forall>n. bit (LOG_UPTO L) n \<longleftrightarrow> n \<le> unat L)
       \<and> uint (LOG_UPTO L) = 2 ^ (unat L + 1) - 1
       \<and> LOG_UPTO 7 = 0xFF
       \<and> (\<forall>n. bit (LOG_MASK L) n \<longleftrightarrow> n = unat L)"
proof -
  have le: "unat L \<le> 7"
    using assms by (rule severities_unat)
  have "\<forall>n. bit (LOG_UPTO L) n \<longleftrightarrow> n \<le> unat L"
    using le by (simp add: LOG_UPTO_bit)
  moreover have "uint (LOG_UPTO L) = 2 ^ (unat L + 1) - 1"
    using le by (simp add: uint_LOG_UPTO)
  moreover have "LOG_UPTO 7 = 0xFF"
    by (simp add: LOG_UPTO_def)
  moreover have "\<forall>n. bit (LOG_MASK L) n \<longleftrightarrow> n = unat L"
    using le by (auto simp: LOG_MASK_bit)
  ultimately show ?thesis by blast
qed

theorem mask_values_witness:
  "LOG_NOTICE \<in> set severities \<and> (\<forall>n. bit (LOG_UPTO LOG_NOTICE) n \<longleftrightarrow> n \<le> 5) \<and> uint (LOG_UPTO LOG_NOTICE) = 63
   \<and> (\<forall>n. bit (LOG_MASK LOG_NOTICE) n \<longleftrightarrow> n = 5)"
proof -
  have s: "LOG_NOTICE \<in> set severities" by (simp add: severities_def)
  have u: "unat LOG_NOTICE = 5" by (simp add: LOG_NOTICE_def)
  show ?thesis using s mask_values [OF s] by (simp add: u)
qed

section \<open>Filtering by the threshold\<close>

lemma Logger_emit_at:
  assumes "S \<in> set severities"
  shows "(Logger_emit ! unat S) sp l format v W =
           (if upto l AND LOG_MASK S \<noteq> 0 then Logger_printf sp l format S v W else W)"
  using assms
  by (rule severities_cases)
    (simp_all add: Logger_emit_def level_defs Logger_Emerg_def Logger_Alert_def Logger_Crit_def
      Logger_Error_def Logger_Warning_def Logger_Notice_def Logger_Info_def Logger_Debug_def)

lemma Logger_emit_v0_at:
  assumes "S \<in> set severities"
  shows "(Logger_emit_v0 ! unat S) sp l format v W =
           (if upto l AND LOG_MASK S \<noteq> 0 then Logger_printf_v0 sp l format S v W else W)"
  using assms
  by (rule severities_cases)
    (simp_all add: Logger_emit_v0_def level_defs Logger_Emerg_v0_def Logger_Alert_v0_def
      Logger_Crit_v0_def Logger_Error_v0_def Logger_Warning_v0_def Logger_Notice_v0_def
      Logger_Info_v0_def Logger_Debug_v0_def)

lemma severities_succ:
  assumes "L \<in> set severities" and "L \<noteq> LOG_DEBUG"
  shows "L + 1 \<in> set severities" and "unat (L + 1) = Suc (unat L)"
  using assms by (auto simp: severities_def level_defs)

lemma severities_less: "S \<in> set severities \<Longrightarrow> L \<in> set severities \<Longrightarrow> S < L \<longleftrightarrow> unat S < unat L"
  by (simp add: word_less_nat_alt)

lemma Logger_emit_after_set:
  assumes "L \<in> set severities" and "S \<in> set severities"
  shows "(Logger_emit ! unat S) sp (l\<lparr>upto := LOG_UPTO L\<rparr>) format v W =
           (if S \<le> L
            then W(out (logger l) := W (out (logger l)) @
                   [sp (sp ''[%s] %s'' [GoString (Levels_at S), GoString format]) v])
            else W)"
proof -
  have "unat L < 63"
    using severities_unat [OF assms(1)] by simp
  then show ?thesis
    by (simp add: Logger_emit_at [OF assms(2)] guard_iff word_le_nat_alt
        Logger_printf_def log_Output_def)
qed

lemma Logger_emit_v0_after_set:
  assumes "L \<in> set severities" and "S \<in> set severities"
  shows "(Logger_emit_v0 ! unat S) sp (l\<lparr>upto := LOG_UPTO L\<rparr>) format v W =
           (if S \<le> L
            then W(out (logger l) := W (out (logger l)) @
                   [sp (sp ''[%s] %s'' [GoString (Levels_at S), GoString format]) v])
            else W)"
proof -
  have "unat L < 63"
    using severities_unat [OF assms(1)] by simp
  then show ?thesis
    by (simp add: Logger_emit_v0_at [OF assms(2)] guard_iff word_le_nat_alt
        Logger_printf_v0_def log_Printf_def log_Output_def)
qed

text \<open>
  Claim C1. For every level \<open>L\<close> in 0..7, after \<^verbatim>\<open>SetPriority(L)\<close> (in src/logger.go:
  \<^verbatim>\<open>SetLevel(L)\<close>) the method of severity \<open>L\<close> hands one line to the logger's writer,
  the method of severity \<open>L + 1\<close> (when \<open>L\<close> is not 7) leaves every sink as it was, and
  the method of every severity below \<open>L\<close> hands its line to the writer.
\<close>

theorem threshold_filter:
  assumes "L \<in> set severities"
  shows "(let l1 = Logger_SetPriority l L; l0 = Logger_SetLevel l L;
              line = (\<lambda>S. sp (sp ''[%s] %s'' [GoString (Levels_at S), GoString format]) v);
              written = (\<lambda>S. W(out (logger l) := W (out (logger l)) @ [line S]))
          in (Logger_emit ! unat L) sp l1 format v W = written L
           \<and> (L \<noteq> LOG_DEBUG \<longrightarrow> (Logger_emit ! unat (L + 1)) sp l1 format v W = W)
           \<and> (\<forall>S \<in> set severities. S < L \<longrightarrow> (Logger_emit ! unat S) sp l1 format v W = written S)
           \<and> (Logger_emit_v0 ! unat L) sp l0 format v W = written L
           \<and> (L \<noteq> LOG_DEBUG \<longrightarrow> (Logger_emit_v0 ! unat (L + 1)) sp l0 format v W = W)
           \<and> (\<forall>S \<in> set severities. S < L \<longrightarrow> (Logger_emit_v0 ! unat S) sp l0 format v W = written S))"
proof -
  have next_off: "\<not> L + 1 \<le> L" if "L \<noteq> LOG_DEBUG"
    using severities_succ(2) [OF assms that] by (simp add: word_le_nat_alt)
  have next_sev: "L + 1 \<in> set severities" if "L \<noteq> LOG_DEBUG"
    using severities_succ(1) [OF assms that] .
  show ?thesis
    unfolding Let_def Logger_SetPriority_def Logger_SetLevel_def
    using next_off next_sev
    by (auto simp: Logger_emit_after_set [OF assms] Logger_emit_v0_after_set [OF assms] assms
        dest: order_less_imp_le)
qed

theorem threshold_filter_witness:
  "LOG_NOTICE \<in> set severities
   \<and> Logger_Notice plain_Sprintf (Logger_SetPriority std_initial LOG_NOTICE)
         ''disk %s'' [GoString ''full''] (\<lambda>w. []) os_Stderr = [''[notice] disk full'']
   \<and> Logger_Info plain_Sprintf (Logger_SetPriority std_initial LOG_NOTICE)
         ''disk %s'' [GoString ''full''] (\<lambda>w. []) = (\<lambda>w. [])
   \<and> Logger_Warning plain_Sprintf (Logger_SetPriority std_initial LOG_NOTICE)
         ''disk %s'' [GoString ''full''] (\<lambda>w. []) os_Stderr = [''[warning] disk full'']"
proof -
  have s: "LOG_NOTICE \<in> set severities" and w: "LOG_WARNING \<in> set severities"
    by (simp_all add: severities_def)
  have n: "LOG_NOTICE \<noteq> LOG_DEBUG" "LOG_WARNING < LOG_NOTICE"
    by (simp_all add: level_defs)
  have u: "unat LOG_NOTICE = 5" "unat (LOG_NOTICE + 1) = 6" "unat LOG_WARNING = 4"
    by (simp_all add: level_defs)
  have o: "out (logger std_initial) = os_Stderr"
    by (simp add: std_initial_def NewLogger_def log_New_def)
  have a: "Levels_at LOG_NOTICE = ''notice''" "Levels_at LOG_WARNING = ''warning''"
    by (simp_all add: Levels_at_def Levels_def level_defs)
  note t = threshold_filter [OF s, where sp = plain_Sprintf and l = std_initial
      and format = "''disk %s''" and v = "[GoString ''full'']" and W = "\<lambda>w. []",
      unfolded Let_def u o a]
  from t have "(Logger_emit ! 5) plain_Sprintf (Logger_SetPriority std_initial LOG_NOTICE)
         ''disk %s'' [GoString ''full''] (\<lambda>w. []) os_Stderr = [''[notice] disk full'']"
    by simp
  moreover from t n(1) have "(Logger_emit ! 6) plain_Sprintf
         (Logger_SetPriority std_initial LOG_NOTICE) ''disk %s'' [GoString ''full''] (\<lambda>w. [])
         = (\<lambda>w. [])"
    by simp
  moreover from t [THEN conjunct2, THEN conjunct2, THEN conjunct1, rule_format, OF w n(2)]
  have "(Logger_emit ! 4) plain_Sprintf
         (Logger_SetPriority std_initial LOG_NOTICE) ''disk %s'' [GoString ''full''] (\<lambda>w. [])
         os_Stderr = [''[warning] disk full'']"
    by (simp add: u a)
  ultimately show ?thesis
    using s by (simp add: Logger_emit_def)
qed

section \<open>The shape of a line\<close>

lemma plain_Sprintf_literal:
  "c \<noteq> CHR ''%'' \<Longrightarrow> plain_Sprintf (c # cs) v = c # plain_Sprintf cs v"
  by (cases cs) simp_all

lemma plain_Sprintf_copies: "copies_literal_text plain_Sprintf"
proof -
  have "plain_Sprintf (p @ f) v = p @ plain_Sprintf f v" if "CHR ''%'' \<notin> set p" for p f v
    using that by (induction p) (auto simp: plain_Sprintf_literal)
  then show ?thesis
    by (simp add: copies_literal_text_def)
qed

lemma plain_Sprintf_fills: "fills_tag_template plain_Sprintf"
  by (simp add: fills_tag_template_def)

lemma Levels_at_no_verb: "CHR ''%'' \<notin> set (Levels_at prio)"
  by (auto simp: Levels_at_def Levels_def split: option.splits if_splits)

lemma tagged_line:
  assumes "copies_literal_text sp" and "fills_tag_template sp"
  shows "sp (sp ''[%s] %s'' [GoString (Levels_at prio), GoString format]) v
           = ''['' @ Levels_at prio @ ''] '' @ sp format v"
proof -
  have "sp ''[%s] %s'' [GoString (Levels_at prio), GoString format]
          = (''['' @ Levels_at prio @ ''] '') @ format"
    using assms(2) by (simp add: fills_tag_template_def)
  moreover have "CHR ''%'' \<notin> set (''['' @ Levels_at prio @ ''] '')"
    using Levels_at_no_verb [of prio] by simp
  ultimately show ?thesis
    using assms(1) unfolding copies_literal_text_def by (metis append.assoc)
qed

lemma emit_at:
  assumes "S \<in> set severities"
  shows "(emit ! unat S) sp std format v W =
           (if upto std AND LOG_MASK S \<noteq> 0 then Logger_printf sp std format S v W else W)"
  using assms
  by (rule severities_cases)
    (simp_all add: emit_def level_defs Emerg_def Alert_def Crit_def Error_def Warning_def
      Notice_def Info_def Debug_def)

text \<open>
  Claim C7. For every severity in 0..7 that passes the filter, every format string and every
  argument list, the line handed to the sink is \<^verbatim>\<open>[<levelname>] <formatted message>\<close>: the
  name of the severity in the \<^verbatim>\<open>Levels\<close> table between brackets, a blank, and the
  format string with the arguments substituted by \<^verbatim>\<open>fmt.Sprintf\<close>. It holds for
  \<^verbatim>\<open>printf\<close> of both source files, for the methods and for the package-level functions,
  given the two facts about \<^verbatim>\<open>fmt.Sprintf\<close> stated with the formatter.
\<close>

theorem line_shape:
  assumes "copies_literal_text sp" and "fills_tag_template sp"
  shows "Logger_printf sp l format prio v W
           = W(out (logger l) := W (out (logger l)) @ [''['' @ Levels_at prio @ ''] '' @ sp format v])
       \<and> Logger_printf_v0 sp l format prio v W
           = W(out (logger l) := W (out (logger l)) @ [''['' @ Levels_at prio @ ''] '' @ sp format v])
       \<and> (\<forall>S \<in> set severities. upto l AND LOG_MASK S \<noteq> 0 \<longrightarrow>
            (Logger_emit ! unat S) sp l format v W
              = W(out (logger l) := W (out (logger l)) @ [''['' @ Levels_at S @ ''] '' @ sp format v])
          \<and> (Logger_emit_v0 ! unat S) sp l format v W
              = W(out (logger l) := W (out (logger l)) @ [''['' @ Levels_at S @ ''] '' @ sp format v])
          \<and> (emit ! unat S) sp l format v W
              = W(out (logger l) := W (out (logger l)) @ [''['' @ Levels_at S @ ''] '' @ sp format v]))
       \<and> map Levels_at severities
           = [''emerg'', ''alert'', ''crit'', ''err'', ''warning'', ''notice'', ''info'', ''debug'']"
proof -
  note line = tagged_line [OF assms]
  have p: "Logger_printf sp l format prio v W
      = W(out (logger l) := W (out (logger l)) @ [''['' @ Levels_at prio @ ''] '' @ sp format v])"
    for prio
    by (simp add: Logger_printf_def log_Output_def line)
  have p0: "Logger_printf_v0 sp l format prio v W
      = W(out (logger l) := W (out (logger l)) @ [''['' @ Levels_at prio @ ''] '' @ sp format v])"
    for prio
    by (simp add: Logger_printf_v0_def log_Printf_def log_Output_def line)
  have names: "map Levels_at severities
      = [''emerg'', ''alert'', ''crit'', ''err'', ''warning'', ''notice'', ''info'', ''debug'']"
    by (simp add: severities_def Levels_at_def Levels_def level_defs)
  show ?thesis
    using p p0 names
    by (simp add: Logger_emit_at Logger_emit_v0_at emit_at)
qed

theorem line_shape_witness:
  "copies_literal_text plain_Sprintf \<and> fills_tag_template plain_Sprintf
   \<and> LOG_CRIT \<in> set severities \<and> upto std_initial AND LOG_MASK LOG_CRIT \<noteq> 0
   \<and> Logger_Crit plain_Sprintf std_initial ''%s: %s'' [GoString ''db'', GoValue ''42'']
         (\<lambda>w. []) os_Stderr = [''[crit] db: 42'']
   \<and> Logger_Crit_v0 plain_Sprintf std_initial ''%s: %s'' [GoString ''db'', GoValue ''42'']
         (\<lambda>w. []) os_Stderr = [''[crit] db: 42'']"
proof -
  have s: "LOG_CRIT \<in> set severities"
    by (simp add: severities_def)
  have g: "upto std_initial AND LOG_MASK LOG_CRIT \<noteq> 0"
    by (simp add: std_initial_def NewLogger_def LOG_UPTO_def LOG_MASK_def level_defs)
  have u: "unat LOG_CRIT = 2"
    by (simp add: LOG_CRIT_def)
  have o: "out (logger std_initial) = os_Stderr"
    by (simp add: std_initial_def NewLogger_def log_New_def)
  have a: "Levels_at LOG_CRIT = ''crit''"
    by (simp add: Levels_at_def Levels_def level_defs)
  note t = line_shape [OF plain_Sprintf_copies plain_Sprintf_fills, where l = std_initial
      and format = "''%s: %s''" and v = "[GoString ''db'', GoValue ''42'']" and W = "\<lambda>w. []"
      and prio = LOG_CRIT]
  note e = t [THEN conjunct2, THEN conjunct2, THEN conjunct1, rule_format, OF s g, unfolded u o a]
  from e have "(Logger_emit ! 2) plain_Sprintf std_initial ''%s: %s''
      [GoString ''db'', GoValue ''42''] (\<lambda>w. []) os_Stderr = [''[crit] db: 42'']"
    by simp
  moreover from e have "(Logger_emit_v0 ! 2) plain_Sprintf std_initial ''%s: %s''
      [GoString ''db'', GoValue ''42''] (\<lambda>w. []) os_Stderr = [''[crit] db: 42'']"
    by simp
  ultimately show ?thesis
    using s g plain_Sprintf_copies plain_Sprintf_fills
    by (simp add: Logger_emit_def Logger_emit_v0_def)
qed

section \<open>Fatal and Panic\<close>

text \<open>
  Claim C5. Whatever the threshold mask \<open>m\<close> of the logger is, also the mask \<open>1\<close> that
  \<^verbatim>\<open>SetPriority(0)\<close> stores, \<^verbatim>\<open>Fatal\<close> and \<^verbatim>\<open>Panic\<close> format their message with
  the arguments and hand the line to the logger's writer: the mask is not read.
\<close>

theorem fatal_panic_unfiltered:
  "Logger_Panic sp (l\<lparr>upto := m\<rparr>) format v W
     = (PanicWith (sp (''[panic] '' @ format) v),
        W(out (logger l) := W (out (logger l)) @ [sp (''[panic] '' @ format) v]))
   \<and> Logger_Fatal sp (l\<lparr>upto := m\<rparr>) format v W
     = (ExitWith 1, W(out (logger l) := W (out (logger l)) @ [sp (''[fatal] '' @ format) v]))
   \<and> Panic sp (l\<lparr>upto := m\<rparr>) format v W
     = (PanicWith (sp (''[panic] '' @ format) v),
        W(out (logger l) := W (out (logger l)) @ [sp (''[panic] '' @ format) v]))
   \<and> Fatal sp (l\<lparr>upto := m\<rparr>) format v W
     = (ExitWith 1, W(out (logger l) := W (out (logger l)) @ [sp (''[fatal] '' @ format) v]))
   \<and> Logger_Panic_v0 sp (l\<lparr>upto := m\<rparr>) format v W
     = (PanicWith (sp (sp ''[panic] %s'' [GoString format]) v),
        W(out (logger l) := W (out (logger l)) @ [sp (sp ''[panic] %s'' [GoString format]) v]))
   \<and> Logger_Fatal_v0 sp (l\<lparr>upto := m\<rparr>) format v W
     = (ExitWith 1,
        W(out (logger l) := W (out (logger l)) @ [sp (sp ''[fatal] %s'' [GoString format]) v]))
   \<and> Logger_SetPriority l LOG_EMERG = l\<lparr>upto := 1\<rparr>
   \<and> Logger_SetLevel l LOG_EMERG = l\<lparr>upto := 1\<rparr>"
  by (simp add: Logger_Panic_def Logger_Fatal_def Panic_def Fatal_def Logger_Panic_v0_def
      Logger_Fatal_v0_def log_Panicf_def log_Fatalf_def log_Output_def Let_def
      Logger_SetPriority_def Logger_SetLevel_def LOG_UPTO_def LOG_EMERG_def)

text \<open>
  Claim C6. \<^verbatim>\<open>Panic\<close> hands the rendered message, the tag \<^verbatim>\<open>[panic] \<close> followed by the
  formatted user message, to the sink and then raises with exactly that message as the
  payload: the sinks that come with the raise already hold the line.
\<close>

theorem panic_writes_then_raises:
  assumes "copies_literal_text sp"
  shows "Logger_Panic sp l format v W
           = (PanicWith (''[panic] '' @ sp format v),
              W(out (logger l) := W (out (logger l)) @ [''[panic] '' @ sp format v]))
       \<and> Panic sp std format v W
           = (PanicWith (''[panic] '' @ sp format v),
              W(out (logger std) := W (out (logger std)) @ [''[panic] '' @ sp format v]))"
proof -
  have "CHR ''%'' \<notin> set ''[panic] ''"
    by simp
  with assms have "sp (''[panic] '' @ format) v = ''[panic] '' @ sp format v"
    unfolding copies_literal_text_def by blast
  then show ?thesis
    by (simp add: Logger_Panic_def Panic_def log_Output_def Let_def)
qed

theorem panic_writes_then_raises_witness:
  "copies_literal_text plain_Sprintf
   \<and> Logger_Panic plain_Sprintf (Logger_SetPriority std_initial LOG_EMERG)
         ''lost %s'' [GoString ''quorum''] ((\<lambda>w. [])(os_Stderr := [''earlier'']))
       = (PanicWith ''[panic] lost quorum'',
          (\<lambda>w. [])(os_Stderr := [''earlier'', ''[panic] lost quorum'']))"
proof -
  have o: "out (logger (Logger_SetPriority std_initial LOG_EMERG)) = os_Stderr"
    by (simp add: std_initial_def NewLogger_def log_New_def Logger_SetPriority_def)
  show ?thesis
    using plain_Sprintf_copies
      panic_writes_then_raises [OF plain_Sprintf_copies,
        where l = "Logger_SetPriority std_initial LOG_EMERG" and format = "''lost %s''"
        and v = "[GoString ''quorum'']" and W = "(\<lambda>w. [])(os_Stderr := [''earlier''])"]
    by (simp add: o)
qed

section \<open>The threshold getter\<close>

lemma Logger_Priority_LOG_UPTO:
  assumes "L \<in> set severities"
  shows "Logger_Priority \<lparr>logger = lg, upto = LOG_UPTO L\<rparr> = L + 1"
  using assms
  by (rule severities_cases) (simp_all add: Logger_Priority_def LOG_UPTO_def)

text \<open>
  Claim C2 says that \<^verbatim>\<open>Priority()\<close> of a logger whose mask is \<^verbatim>\<open>LOG_UPTO(L)\<close> is
  \<open>L\<close>. The method counts the trailing one bits of the mask, and \<^verbatim>\<open>LOG_UPTO(L)\<close> has
  \<open>L + 1\<close> of them: on the eight levels it returns 1 to 8, and for a logger at
  \<^verbatim>\<open>LOG_ERR\<close> it returns \<^verbatim>\<open>LOG_WARNING\<close>.
\<close>

theorem Priority_one_more:
  "map (\<lambda>L. Logger_Priority (NewLogger w p f L)) severities = [1, 2, 3, 4, 5, 6, 7, 8]
   \<and> Logger_Priority (NewLogger w p f LOG_ERR) = LOG_WARNING
   \<and> Priority (SetPriority std LOG_ERR) = LOG_WARNING"
  by (simp add: severities_def level_defs NewLogger_def Logger_Priority_def LOG_UPTO_def
     Priority_def SetPriority_def Logger_SetPriority_def)

lemma SetOutput_upto:
  assumes "L \<in> set severities"
  shows "upto (SetOutput (SetPriority std L) w) = LOG_UPTO (L + 1)"
  using Logger_Priority_LOG_UPTO [OF assms]
  by (simp add: SetOutput_def SetPriority_def Logger_SetPriority_def NewLogger_def Priority_def
      Logger_Priority_def)

text \<open>
  Claim C9 says that the package-level \<^verbatim>\<open>SetOutput\<close> leaves the threshold as it was.
  \<^verbatim>\<open>SetOutput\<close> builds the new logger from \<^verbatim>\<open>Priority()\<close>, which is one more than
  the level that was set: after \<^verbatim>\<open>SetPriority(LOG_ERR)\<close> a \<^verbatim>\<open>Warning\<close> is dropped, and
  after \<^verbatim>\<open>SetOutput(w)\<close> the same call writes to \<open>w\<close>.
\<close>

theorem SetOutput_raises_threshold:
  "Warning sp (SetPriority std LOG_ERR) format v W = W
   \<and> Warning sp (SetOutput (SetPriority std LOG_ERR) w) format v W
       = W(w := W w @ [sp (sp ''[%s] %s'' [GoString ''warning'', GoString format]) v])
   \<and> upto (SetPriority std LOG_ERR) = LOG_UPTO LOG_ERR
   \<and> upto (SetOutput (SetPriority std LOG_ERR) w) = LOG_UPTO LOG_WARNING"
  by (simp add: Warning_def SetOutput_def SetPriority_def Logger_SetPriority_def NewLogger_def
      Priority_def Logger_Priority_def LOG_UPTO_def LOG_MASK_def level_defs Logger_printf_def
      log_Output_def log_New_def Levels_at_def Levels_def)

section \<open>Packing a facility and a level\<close>

lemma LOG_PRI_LOG_MAKEPRI:
  assumes "L \<in> set severities"
  shows "LOG_PRI (LOG_MAKEPRI F L) = L"
proof -
  have seven: "(7 :: go_int) = mask 3"
    by (simp add: mask_eq_exp_minus_1)
  have "push_bit 3 F AND (7 :: go_int) = 0"
    unfolding seven by (simp add: take_bit_eq_mask [symmetric] take_bit_push_bit)
  moreover have "L AND 7 = L"
    using assms by (rule severities_cases) simp_all
  ultimately show ?thesis
    by (simp add: LOG_PRI_def LOG_MAKEPRI_def LOG_PRIMASK_def bit.conj_disj_distrib2)
qed

lemma LOG_FAC_LOG_MAKEPRI_low:
  assumes "F \<in> set [LOG_KERN, LOG_USER, LOG_MAIL, LOG_DAEMON, LOG_AUTH, LOG_SYSLOG, LOG_LPR,
             LOG_NEWS, LOG_UUCP, LOG_CRON, LOG_AUTHPRIV, LOG_FTP]"
    and "L \<in> set severities"
  shows "LOG_FAC (LOG_MAKEPRI F L) = F"
  using assms(2)
  apply (rule severities_cases)
  using assms(1)
  apply (auto simp add: LOG_FAC_def LOG_MAKEPRI_def facility_defs LOG_FACMASK_def)
  done

text \<open>
  Claim C10 says that \<^verbatim>\<open>LOG_PRI\<close> and \<^verbatim>\<open>LOG_FAC\<close> recover the level and the facility
  that \<^verbatim>\<open>LOG_MAKEPRI\<close> packed. The level is recovered (lemma \<open>LOG_PRI_LOG_MAKEPRI\<close>),
  and so are the facilities \<^verbatim>\<open>LOG_KERN\<close> to \<^verbatim>\<open>LOG_FTP\<close>
  (lemma \<open>LOG_FAC_LOG_MAKEPRI_low\<close>). The facility constants are already shifted by 3 and
  \<^verbatim>\<open>LOG_MAKEPRI\<close> shifts them again, which moves \<^verbatim>\<open>LOG_LOCAL0\<close> to \<^verbatim>\<open>LOG_LOCAL7\<close>
  and \<^verbatim>\<open>INTERNAL_MARK\<close> beyond \<^verbatim>\<open>LOG_FACMASK\<close>: \<^verbatim>\<open>LOG_LOCAL0\<close> comes back as
  \<^verbatim>\<open>LOG_KERN\<close>.
\<close>

theorem LOG_FAC_loses_local:
  "LOG_FAC (LOG_MAKEPRI LOG_LOCAL0 LOG_EMERG) = LOG_KERN \<and> LOG_KERN \<noteq> LOG_LOCAL0
   \<and> map fst (filter (\<lambda>(F, name). LOG_FAC (LOG_MAKEPRI F LOG_EMERG) \<noteq> F) Facilities)
       = [INTERNAL_MARK, LOG_LOCAL0, LOG_LOCAL1, LOG_LOCAL2, LOG_LOCAL3, LOG_LOCAL4, LOG_LOCAL5, LOG_LOCAL6, LOG_LOCAL7]"
  by (simp add: LOG_FAC_def LOG_MAKEPRI_def facility_defs level_defs LOG_FACMASK_def Facilities_def)

section \<open>The startup of the package-wide logger\<close>

lemma Levels_names_distinct: "distinct (map snd Levels)"
  by (simp add: Levels_def)

lemma Levels_names_unique:
  assumes "(k, x) \<in> set Levels" and "(k', x) \<in> set Levels"
  shows "k' = k"
proof -
  have "inj_on snd (set Levels)"
    using Levels_names_distinct by (simp add: distinct_map)
  from inj_onD [OF this _ assms(2) assms(1)] show ?thesis
    by simp
qed

lemma swapped_keys: "map fst (map (\<lambda>(k, v). (v, k)) xs) = map snd xs"
  by (induction xs) auto

lemma startup_level_match:
  assumes "(k, x) \<in> set Levels"
  shows "startup_level x = k"
proof -
  have "distinct (map fst (map (\<lambda>(k, v). (v, k)) Levels))"
    using Levels_names_distinct by (simp only: swapped_keys)
  moreover have "(x, k) \<in> set (map (\<lambda>(k, v). (v, k)) Levels)"
    using assms by (simp add: image_iff) (rule bexI [of _ "(k, x)"], simp_all)
  ultimately have "map_of (map (\<lambda>(k, v). (v, k)) Levels) x = Some k"
    by (rule map_of_is_SomeI)
  then show ?thesis
    by (simp add: startup_level_def)
qed

lemma startup_level_nomatch:
  assumes "x \<notin> snd ` set Levels"
  shows "startup_level x = LOG_ERR"
proof -
  have "fst ` set (map (\<lambda>(k, v). (v, k)) Levels) = snd ` set Levels"
    using swapped_keys [of Levels] by (metis set_map)
  then have "map_of (map (\<lambda>(k, v). (v, k)) Levels) x = None"
    using assms by (simp only: map_of_eq_None_iff not_False_eq_True)
  then show ?thesis
    by (simp add: startup_level_def)
qed

lemma init_range_match:
  assumes "(k, x) \<in> set order"
    and "\<And>k'. (k', x) \<in> set order \<Longrightarrow> k' = k"
    and "ToLower s = x"
  shows "init_range ToLower s order std = SetPriority std k"
  using assms(1,2)
proof (induction order)
  case Nil
  then show ?case by simp
next
  case (Cons e rest)
  obtain k0 v0 where e: "e = (k0, v0)"
    by (cases e)
  show ?case
  proof (cases "v0 = x")
    case True
    then have "k0 = k"
      using Cons.prems(2) [of k0] e by simp
    then show ?thesis
      using True e assms(3) by simp
  next
    case False
    then have "(k, x) \<in> set rest"
      using Cons.prems(1) e by auto
    moreover have "k' = k" if "(k', x) \<in> set rest" for k'
      using Cons.prems(2) [of k'] that by simp
    ultimately have "init_range ToLower s rest std = SetPriority std k"
      by (rule Cons.IH)
    then show ?thesis
      using False e assms(3) by simp
  qed
qed

lemma init_range_nomatch:
  assumes "x \<notin> snd ` set order" and "ToLower s = x"
  shows "init_range ToLower s order std = std"
  using assms(1)
proof (induction order)
  case Nil
  then show ?case by simp
next
  case (Cons e rest)
  obtain k0 v0 where e: "e = (k0, v0)"
    by (cases e)
  have "v0 \<noteq> x"
    using Cons.prems e by auto
  moreover have "init_range ToLower s rest std = std"
    using Cons.prems by (intro Cons.IH) simp
  ultimately show ?case
    using e assms(2) by simp
qed


lemma init_startup_level:
  assumes "set order = set Levels"
  shows "init ToLower env order std_initial =
           SetPriority std_initial (startup_level (ToLower (os_Getenv env ''GOLOGLEVEL'')))"
proof (cases "ToLower (os_Getenv env ''GOLOGLEVEL'') \<in> snd ` set Levels")
  case True
  then obtain k where k: "(k, ToLower (os_Getenv env ''GOLOGLEVEL'')) \<in> set Levels"
    by force
  have "init_range ToLower (os_Getenv env ''GOLOGLEVEL'') order std_initial
          = SetPriority std_initial k"
  proof (rule init_range_match)
    show "(k, ToLower (os_Getenv env ''GOLOGLEVEL'')) \<in> set order"
      using k assms by simp
    show "k' = k" if "(k', ToLower (os_Getenv env ''GOLOGLEVEL'')) \<in> set order" for k'
      using that assms Levels_names_unique [OF k] by simp
    show "ToLower (os_Getenv env ''GOLOGLEVEL'') = ToLower (os_Getenv env ''GOLOGLEVEL'')"
      by (rule refl)
  qed
  then show ?thesis
    by (simp add: init_def startup_level_match [OF k])
next
  case False
  have "init_range ToLower (os_Getenv env ''GOLOGLEVEL'') order std_initial = std_initial"
  proof (rule init_range_nomatch)
    show "ToLower (os_Getenv env ''GOLOGLEVEL'') \<notin> snd ` set order"
      using False assms by simp
    show "ToLower (os_Getenv env ''GOLOGLEVEL'') = ToLower (os_Getenv env ''GOLOGLEVEL'')"
      by (rule refl)
  qed
  moreover have "SetPriority std_initial LOG_ERR = std_initial"
    by (simp add: SetPriority_def Logger_SetPriority_def std_initial_def NewLogger_def)
  ultimately show ?thesis
    by (simp add: init_def startup_level_nomatch [OF False])
qed

lemma emit_with_threshold:
  assumes "L \<in> set severities" and "S \<in> set severities" and "upto std = LOG_UPTO L"
  shows "(emit ! unat S) sp std format v W =
           (if S \<le> L
            then W(out (logger std) := W (out (logger std)) @
                   [sp (sp ''[%s] %s'' [GoString (Levels_at S), GoString format]) v])
            else W)"
proof -
  have "unat L < 63"
    using severities_unat [OF assms(1)] by simp
  then show ?thesis
    by (simp add: emit_at [OF assms(2)] assms(3) guard_iff word_le_nat_alt
        Logger_printf_def log_Output_def)
qed

lemma empty_no_level_name: "[] \<notin> snd ` set Levels"
  by (simp add: Levels_def)

lemma ascii_ToLower_DEBUG: "ascii_ToLower ''DEBUG'' = ''debug''"
  by (simp add: ascii_ToLower_def)

text \<open>
  Claim C4. Let \<open>s\<close> be the lower-cased value of \<^verbatim>\<open>GOLOGLEVEL\<close>. Whatever the order in
  which Go walks the \<^verbatim>\<open>Levels\<close> map: if \<open>s\<close> is the name of a level in the table, the
  mask of the package-wide logger after \<^verbatim>\<open>init\<close> is that of this level; for
  \<^verbatim>\<open>debug\<close> it is that of level 7 and all eight severities write; if the variable is
  not set or \<open>s\<close> is no name of the table, the mask is that of the error level 3, so
  \<^verbatim>\<open>Emerg\<close>, \<^verbatim>\<open>Alert\<close>, \<^verbatim>\<open>Crit\<close> and \<^verbatim>\<open>Error\<close> write and the four others are
  dropped. \<^verbatim>\<open>strings.ToLower\<close> is a parameter of which only \<open>ToLower [] = []\<close> is used.
\<close>

theorem init_threshold:
  assumes "set order = set Levels" and "ToLower [] = []"
  shows "(let s = ToLower (os_Getenv env ''GOLOGLEVEL'');
              std = init ToLower env order std_initial;
              line = (\<lambda>S. sp (sp ''[%s] %s'' [GoString (Levels_at S), GoString format]) v);
              written = (\<lambda>S. W(os_Stderr := W os_Stderr @ [line S]))
          in (\<forall>k. (k, s) \<in> set Levels \<longrightarrow> upto std = LOG_UPTO k)
           \<and> (s = ''debug'' \<longrightarrow>
                 upto std = LOG_UPTO LOG_DEBUG
               \<and> (\<forall>S \<in> set severities. (emit ! unat S) sp std format v W = written S))
           \<and> (env ''GOLOGLEVEL'' = None \<or> s \<notin> snd ` set Levels \<longrightarrow>
                 upto std = LOG_UPTO LOG_ERR
               \<and> (\<forall>S \<in> set severities.
                     (emit ! unat S) sp std format v W = (if S \<le> LOG_ERR then written S else W))))"
proof -
  define s where "s = ToLower (os_Getenv env ''GOLOGLEVEL'')"
  define std where "std = init ToLower env order std_initial"
  have std: "std = SetPriority std_initial (startup_level s)"
    unfolding std_def s_def using assms(1) by (rule init_startup_level)
  have up: "upto std = LOG_UPTO (startup_level s)"
    by (simp add: std SetPriority_def Logger_SetPriority_def)
  have lg: "out (logger std) = os_Stderr"
    by (simp add: std SetPriority_def Logger_SetPriority_def std_initial_def NewLogger_def
        log_New_def)
  have matched: "upto std = LOG_UPTO k" if "(k, s) \<in> set Levels" for k
    using up startup_level_match [OF that] by simp
  have dbg: "(LOG_DEBUG, ''debug'') \<in> set Levels" and err: "LOG_ERR \<in> set severities"
    and deb: "LOG_DEBUG \<in> set severities"
    by (simp_all add: Levels_def severities_def)
  have all_le: "S \<le> LOG_DEBUG" if "S \<in> set severities" for S
    using severities_unat [OF that] by (simp add: word_le_nat_alt LOG_DEBUG_def)
  have debug: "upto std = LOG_UPTO LOG_DEBUG
      \<and> (\<forall>S \<in> set severities. (emit ! unat S) sp std format v W
            = W(os_Stderr := W os_Stderr @
                [sp (sp ''[%s] %s'' [GoString (Levels_at S), GoString format]) v]))"
    if "s = ''debug''"
  proof -
    have u: "upto std = LOG_UPTO LOG_DEBUG"
      using matched [of LOG_DEBUG] dbg that by simp
    show ?thesis
      using u all_le by (simp add: emit_with_threshold [OF deb _ u] lg)
  qed
  have dflt: "upto std = LOG_UPTO LOG_ERR
      \<and> (\<forall>S \<in> set severities. (emit ! unat S) sp std format v W
            = (if S \<le> LOG_ERR
               then W(os_Stderr := W os_Stderr @
                [sp (sp ''[%s] %s'' [GoString (Levels_at S), GoString format]) v])
               else W))"
    if "env ''GOLOGLEVEL'' = None \<or> s \<notin> snd ` set Levels"
  proof -
    have "s \<notin> snd ` set Levels"
    proof (cases "env ''GOLOGLEVEL''")
      case None
      then have "s = []"
        by (simp add: s_def os_Getenv_def assms(2))
      then show ?thesis
        using empty_no_level_name by simp
    next
      case (Some a)
      then show ?thesis
        using that by simp
    qed
    then have u: "upto std = LOG_UPTO LOG_ERR"
      using up by (simp add: startup_level_nomatch)
    show ?thesis
      using u by (simp add: emit_with_threshold [OF err _ u] lg)
  qed
  show ?thesis
    unfolding Let_def s_def [symmetric] std_def [symmetric]
    using matched debug dflt by blast
qed

theorem init_threshold_witness:
  "set (rev Levels) = set Levels \<and> ascii_ToLower [] = []
   \<and> upto (init ascii_ToLower [''GOLOGLEVEL'' \<mapsto> ''DEBUG''] (rev Levels) std_initial) = 0xFF
   \<and> Debug plain_Sprintf
         (init ascii_ToLower [''GOLOGLEVEL'' \<mapsto> ''DEBUG''] (rev Levels) std_initial)
         ''up %s'' [GoString ''now''] (\<lambda>w. []) os_Stderr = [''[debug] up now'']
   \<and> upto (init ascii_ToLower Map.empty (rev Levels) std_initial) = 0x0F
   \<and> Error plain_Sprintf (init ascii_ToLower Map.empty (rev Levels) std_initial)
         ''up %s'' [GoString ''now''] (\<lambda>w. []) os_Stderr = [''[err] up now'']
   \<and> Warning plain_Sprintf (init ascii_ToLower Map.empty (rev Levels) std_initial)
         ''up %s'' [GoString ''now''] (\<lambda>w. []) = (\<lambda>w. [])"
proof -
  have h1: "set (rev Levels) = set Levels" and h2: "ascii_ToLower [] = []"
    by (simp_all add: ascii_ToLower_def)
  have sev: "LOG_DEBUG \<in> set severities" "LOG_ERR \<in> set severities"
      "LOG_WARNING \<in> set severities"
    by (simp_all add: severities_def)
  have u: "unat LOG_DEBUG = 7" "unat LOG_ERR = 3" "unat LOG_WARNING = 4"
    by (simp_all add: level_defs)
  have a: "Levels_at LOG_DEBUG = ''debug''" "Levels_at LOG_ERR = ''err''"
    by (simp_all add: Levels_at_def Levels_def level_defs)
  have cmp: "LOG_ERR \<le> LOG_ERR" "\<not> LOG_WARNING \<le> LOG_ERR"
    by (simp_all add: level_defs)
  have v: "LOG_UPTO LOG_DEBUG = 0xFF" "LOG_UPTO LOG_ERR = 0x0F"
    by (simp_all add: LOG_UPTO_def level_defs)
  have s1: "ascii_ToLower (os_Getenv [''GOLOGLEVEL'' \<mapsto> ''DEBUG''] ''GOLOGLEVEL'') = ''debug''"
    by (simp add: os_Getenv_def ascii_ToLower_DEBUG)
  note t1 = init_threshold [where ToLower = ascii_ToLower and order = "rev Levels"
      and env = "[''GOLOGLEVEL'' \<mapsto> ''DEBUG'']"
      and sp = plain_Sprintf and format = "''up %s''" and v = "[GoString ''now'']"
      and W = "\<lambda>w. []", OF h1 h2, unfolded Let_def, THEN conjunct2, THEN conjunct1, rule_format, OF s1]
  note t2 = init_threshold [where ToLower = ascii_ToLower and order = "rev Levels"
      and env = Map.empty
      and sp = plain_Sprintf and format = "''up %s''" and v = "[GoString ''now'']"
      and W = "\<lambda>w. []", OF h1 h2, unfolded Let_def, THEN conjunct2, THEN conjunct2, rule_format,
      OF disjI1 [OF refl [of "None"]]]
  have "upto (init ascii_ToLower [''GOLOGLEVEL'' \<mapsto> ''DEBUG''] (rev Levels) std_initial) = 0xFF"
    using t1 [THEN conjunct1] by (simp add: v)
  moreover have "(emit ! 7) plain_Sprintf
         (init ascii_ToLower [''GOLOGLEVEL'' \<mapsto> ''DEBUG''] (rev Levels) std_initial)
         ''up %s'' [GoString ''now''] (\<lambda>w. []) os_Stderr = [''[debug] up now'']"
    using t1 [THEN conjunct2, rule_format, OF sev(1)] by (simp add: u a)
  moreover have "upto (init ascii_ToLower Map.empty (rev Levels) std_initial) = 0x0F"
    using t2 [THEN conjunct1] by (simp add: v)
  moreover have "(emit ! 3) plain_Sprintf (init ascii_ToLower Map.empty (rev Levels) std_initial)
         ''up %s'' [GoString ''now''] (\<lambda>w. []) os_Stderr = [''[err] up now'']"
    using t2 [THEN conjunct2, rule_format, OF sev(2)] by (simp add: u a cmp)
  moreover have "(emit ! 4) plain_Sprintf (init ascii_ToLower Map.empty (rev Levels) std_initial)
         ''up %s'' [GoString ''now''] (\<lambda>w. []) = (\<lambda>w. [])"
    using t2 [THEN conjunct2, rule_format, OF sev(3)] by (simp add: u cmp)
  ultimately show ?thesis
    using h1 h2 by (simp add: emit_def)
qed

section \<open>The mask is a run of low-order bits\<close>

lemma LOG_UPTO_mask: "LOG_UPTO T = mask (unat (T + 1))"
  by (simp add: LOG_UPTO_def push_bit_eq_mult mask_eq_exp_minus_1)

lemma init_range_upto:
  "upto (init_range ToLower s order std) = upto std
     \<or> (\<exists>k. upto (init_range ToLower s order std) = LOG_UPTO k)"
proof (induction order)
  case Nil
  then show ?case by simp
next
  case (Cons e rest)
  obtain k0 v0 where e: "e = (k0, v0)"
    by (cases e)
  show ?case
  proof (cases "ToLower s = v0")
    case True
    then have "upto (init_range ToLower s (e # rest) std) = LOG_UPTO k0"
      by (simp add: e SetPriority_def Logger_SetPriority_def)
    then show ?thesis by blast
  next
    case False
    then show ?thesis
      using Cons.IH by (simp add: e)
  qed
qed

lemma reachable_mask:
  assumes "reachable l"
  shows "\<exists>k. upto l = mask k"
  using assms
proof (induction rule: reachable.induct)
  case (reach_New w p f priority)
  then show ?case
    by (auto simp: NewLogger_def LOG_UPTO_mask)
next
  case (reach_SetPriority l priority)
  then show ?case
    by (auto simp: Logger_SetPriority_def LOG_UPTO_mask)
next
  case (reach_SetLevel l priority)
  then show ?case
    by (auto simp: Logger_SetLevel_def LOG_UPTO_mask)
next
  case (reach_SetFlags l f)
  then show ?case
    by (simp add: Logger_SetFlags_def)
next
  case (reach_SetPrefix l p)
  then show ?case
    by (simp add: Logger_SetPrefix_def)
next
  case (reach_SetOutput l w)
  then show ?case
    by (auto simp: SetOutput_def NewLogger_def LOG_UPTO_mask)
next
  case (reach_init l ToLower env order)
  then show ?case
    using init_range_upto [of ToLower "os_Getenv env ''GOLOGLEVEL''" order l]
    by (auto simp: init_def LOG_UPTO_mask)
qed

lemma mask_run:
  "\<exists>k\<le>64. uint (mask j :: go_int) = 2 ^ k - 1 \<and> (\<forall>n. bit (mask j :: go_int) n \<longleftrightarrow> n < k)"
proof (intro exI [of _ "min 64 j"] conjI allI)
  show "min 64 j \<le> 64" by simp
  have "uint (mask j :: go_int) = mask (min 64 j)"
    by (simp add: uint_mask_eq)
  also have "\<dots> = 2 ^ min 64 j - (1 :: int)"
    by (rule mask_eq_exp_minus_1)
  finally show "uint (mask j :: go_int) = 2 ^ min 64 j - 1" .
  show "bit (mask j :: go_int) n \<longleftrightarrow> n < min 64 j" for n
    by (auto simp: bit_mask_iff)
qed

lemma startup_level_small: "unat (startup_level x) < 63"
proof (cases "x \<in> snd ` set Levels")
  case True
  then obtain k where k: "(k, x) \<in> set Levels"
    by force
  then have "unat k < 63"
    by (auto simp: Levels_def level_defs)
  then show ?thesis
    by (simp add: startup_level_match [OF k])
next
  case False
  then show ?thesis
    by (simp add: startup_level_nomatch LOG_ERR_def)
qed

text \<open>
  Claim C8. In every state that a logger can reach (built by \<^verbatim>\<open>NewLogger\<close>, changed by
  the setters, by \<^verbatim>\<open>SetOutput\<close> and by \<^verbatim>\<open>init\<close>) the mask is a run of one bits that
  starts at bit 0: it is \<open>2 ^ k - 1\<close> for some \<open>k\<close>, with exactly the bits below \<open>k\<close>
  set. After \<^verbatim>\<open>NewLogger\<close> and after \<^verbatim>\<open>SetPriority\<close> or \<^verbatim>\<open>SetLevel\<close> with the level
  \<open>T\<close> (from 0 to 62, where the shift does not leave the 64 bits) the mask is
  the number \<open>2 ^ (T + 1) - 1\<close>, and after \<^verbatim>\<open>init\<close> it is that number for the level
  resolved from the environment.
\<close>

theorem mask_contiguous:
  assumes "reachable l"
  shows "(\<exists>k\<le>64. uint (upto l) = 2 ^ k - 1 \<and> (\<forall>n. bit (upto l) n \<longleftrightarrow> n < k))
       \<and> (unat T < 63 \<longrightarrow>
             uint (upto (NewLogger w p f T)) = 2 ^ (unat T + 1) - 1
           \<and> uint (upto (Logger_SetPriority l T)) = 2 ^ (unat T + 1) - 1
           \<and> uint (upto (Logger_SetLevel l T)) = 2 ^ (unat T + 1) - 1
           \<and> uint (upto (SetPriority l T)) = 2 ^ (unat T + 1) - 1)
       \<and> (set order = set Levels \<longrightarrow>
             uint (upto (init ToLower env order std_initial))
               = 2 ^ (unat (startup_level (ToLower (os_Getenv env ''GOLOGLEVEL''))) + 1) - 1)"
proof -
  obtain j where "upto l = mask j"
    using reachable_mask [OF assms] by blast
  then have run: "\<exists>k\<le>64. uint (upto l) = 2 ^ k - 1 \<and> (\<forall>n. bit (upto l) n \<longleftrightarrow> n < k)"
    using mask_run [of j] by simp
  have set: "uint (upto (NewLogger w p f T)) = 2 ^ (unat T + 1) - 1
           \<and> uint (upto (Logger_SetPriority l T)) = 2 ^ (unat T + 1) - 1
           \<and> uint (upto (Logger_SetLevel l T)) = 2 ^ (unat T + 1) - 1
           \<and> uint (upto (SetPriority l T)) = 2 ^ (unat T + 1) - 1" if "unat T < 63"
    using uint_LOG_UPTO [OF that]
    by (simp add: NewLogger_def Logger_SetPriority_def Logger_SetLevel_def SetPriority_def)
  have env: "uint (upto (init ToLower env order std_initial))
               = 2 ^ (unat (startup_level (ToLower (os_Getenv env ''GOLOGLEVEL''))) + 1) - 1"
    if "set order = set Levels"
    using uint_LOG_UPTO [OF startup_level_small [of "ToLower (os_Getenv env ''GOLOGLEVEL'')"]]
    by (simp add: init_startup_level [OF that] SetPriority_def Logger_SetPriority_def)
  show ?thesis
    using run set env by blast
qed

theorem mask_contiguous_witness:
  "reachable (SetOutput (Logger_SetPriority (NewLogger 1 ''app'' 0 LOG_INFO) LOG_CRIT) 5)
   \<and> (\<exists>k\<le>64.
        uint (upto (SetOutput (Logger_SetPriority (NewLogger 1 ''app'' 0 LOG_INFO) LOG_CRIT) 5))
          = 2 ^ k - 1
      \<and> (\<forall>n. bit (upto (SetOutput (Logger_SetPriority (NewLogger 1 ''app'' 0 LOG_INFO)
                 LOG_CRIT) 5)) n \<longleftrightarrow> n < k))
   \<and> unat LOG_INFO < 63
   \<and> uint (upto (NewLogger 1 ''app'' 0 LOG_INFO)) = 127
   \<and> set (rev Levels) = set Levels
   \<and> uint (upto (init ascii_ToLower [''GOLOGLEVEL'' \<mapsto> ''Info''] (rev Levels) std_initial))
       = 127"
proof -
  have r: "reachable (SetOutput (Logger_SetPriority (NewLogger 1 ''app'' 0 LOG_INFO) LOG_CRIT) 5)"
    by (intro reach_SetOutput reach_SetPriority reach_New)
  have t: "unat LOG_INFO < 63" and u: "unat LOG_INFO = 6"
    by (simp_all add: LOG_INFO_def)
  have o: "set (rev Levels) = set Levels"
    by simp
  have "ascii_ToLower (os_Getenv [''GOLOGLEVEL'' \<mapsto> ''Info''] ''GOLOGLEVEL'') = ''info''"
    by (simp add: os_Getenv_def ascii_ToLower_def)
  moreover have "(LOG_INFO, ''info'') \<in> set Levels"
    by (simp add: Levels_def)
  ultimately have
    s: "startup_level (ascii_ToLower (os_Getenv [''GOLOGLEVEL'' \<mapsto> ''Info''] ''GOLOGLEVEL''))
          = LOG_INFO"
    by (simp add: startup_level_match)
  note m = mask_contiguous [OF r, where T = LOG_INFO and w = 1 and p = "''app''" and f = 0
      and order = "rev Levels" and ToLower = ascii_ToLower
      and env = "[''GOLOGLEVEL'' \<mapsto> ''Info'']"]
  have "uint (upto (NewLogger 1 ''app'' 0 LOG_INFO)) = 127"
    using m [THEN conjunct2, THEN conjunct1, rule_format, OF t, THEN conjunct1]
    by (simp add: u)
  moreover have
    "uint (upto (init ascii_ToLower [''GOLOGLEVEL'' \<mapsto> ''Info''] (rev Levels) std_initial))
       = 127"
    using m [THEN conjunct2, THEN conjunct2, rule_format, OF o]
    by (simp add: s u)
  ultimately show ?thesis
    using r t o m [THEN conjunct1] by simp
qed

end
